theory Spec2Isabelle
  imports Complex_Main
begin

section \<open>DailyLens: the clients of the feed engine\<close>

text \<open>
  The repository holds two browser clients of the DailyLens backend: the Next.js client
  (\<^verbatim>\<open>frontend-app/components/feed-app.tsx\<close>, \<^verbatim>\<open>article-card.tsx\<close>,
  \<^verbatim>\<open>lib/api.ts\<close>, \<^verbatim>\<open>lib/types.ts\<close>) and the legacy client
  (\<^verbatim>\<open>frontend/script.js\<close>). Their handlers are embedded as functions on an
  explicit record of the React state cells; every awaited request is an input of the
  handler (the server's answer), and every request a handler sends is part of its result.

  A handler of \<^verbatim>\<open>FeedApp\<close> is a closure of one render. What it reads of the state
  it reads as that render saw it; what it writes goes through the setters to the live
  state, and a functional update (\<^verbatim>\<open>setItems((prev) => ...)\<close>) reads the live cell.
  So each handler takes two states: \<open>cap\<close>, the cells as captured by the render that
  made the closure, and \<open>st\<close>, the live state its writes apply to. The two differ
  whenever the state has been written since that render, as it can be while a handler
  waits for a response.

  JavaScript numbers are modelled by \<^typ>\<open>real\<close> (scores, shares, dwell times, the
  clock of \<^verbatim>\<open>performance.now()\<close>) and by \<^typ>\<open>nat\<close> (offsets, counts, the
  millisecond clock of \<^verbatim>\<open>Date.now()\<close>). The numbers that come from the retry hint
  of an error text are doubles, with their rounding and their infinity. JavaScript
  strings are lists of UTF-16 code units, each a \<^typ>\<open>nat\<close>.
\<close>

subsection \<open>Strings\<close>

type_synonym js_string = "nat list"

definition lit :: "string \<Rightarrow> js_string" where
  "lit s = map of_char s"

text \<open>\<^verbatim>\<open>s.startsWith(p)\<close> and \<^verbatim>\<open>s.includes(p)\<close>.\<close>

fun startsWith :: "js_string \<Rightarrow> js_string \<Rightarrow> bool" where
  "startsWith s [] = True"
| "startsWith [] (p # ps) = False"
| "startsWith (c # cs) (p # ps) = (c = p \<and> startsWith cs ps)"

fun js_includes :: "js_string \<Rightarrow> js_string \<Rightarrow> bool" where
  "js_includes [] p = startsWith [] p"
| "js_includes (c # cs) p = (startsWith (c # cs) p \<or> js_includes cs p)"

text \<open>
  The class \<^verbatim>\<open>\s\<close> of a JavaScript regular expression, which is also what
  \<^verbatim>\<open>String.prototype.trim\<close> strips: WhiteSpace and LineTerminator.
\<close>

definition is_space :: "nat \<Rightarrow> bool" where
  "is_space c \<longleftrightarrow>
     c \<in> {9, 10, 11, 12, 13, 32, 160, 5760, 8232, 8233, 8239, 8287, 12288, 65279}
     \<or> (8192 \<le> c \<and> c \<le> 8202)"

text \<open>The class \<^verbatim>\<open>\d\<close>: the ASCII digits only.\<close>

definition is_digit :: "nat \<Rightarrow> bool" where
  "is_digit c \<longleftrightarrow> 48 \<le> c \<and> c \<le> 57"

definition trim :: "js_string \<Rightarrow> js_string" where
  "trim s = rev (dropWhile is_space (rev (dropWhile is_space s)))"

subsection \<open>Doubles that hold natural numbers\<close>

text \<open>
  The values that \<^verbatim>\<open>Number\<close> gives for a string of decimal digits, and their
  products and sums: a natural number that a double represents, or \<^verbatim>\<open>Infinity\<close>.
  \<open>to_double n\<close> is the double nearest to \<open>n\<close>, ties to the even significand: \<open>n\<close>
  itself below \<open>2 ^ 53\<close>, above that \<open>n\<close> rounded to its leading 53 bits, and
  \<^verbatim>\<open>Infinity\<close> when the rounded value reaches \<open>2 ^ 1024\<close>. The product and the sum
  of two such doubles are the exact result rounded in the same way. (For a literal of
  more than 20 significant digits the language lets an engine round from the first 20
  alone; the value here is the correctly rounded one.)
\<close>

datatype js_number = Finite nat | Infinity

fun bit_length :: "nat \<Rightarrow> nat" where
  "bit_length n = (if n = 0 then 0 else Suc (bit_length (n div 2)))"

declare bit_length.simps [simp del]

definition to_double :: "nat \<Rightarrow> js_number" where
  "to_double n =
     (if n < 2 ^ 53 then Finite n
      else
        let e = bit_length n - 53;
            q = n div 2 ^ e;
            r = n mod 2 ^ e;
            half = 2 ^ (e - 1);
            m = (if half < r \<or> (r = half \<and> odd q) then q + 1 else q) * 2 ^ e
        in if m < 2 ^ 1024 then Finite m else Infinity)"

text \<open>\<^verbatim>\<open>a * b\<close>, \<^verbatim>\<open>a + b\<close> and \<^verbatim>\<open>a < b\<close> on these numbers.\<close>

definition js_mul :: "nat \<Rightarrow> nat \<Rightarrow> js_number" where
  "js_mul a b = to_double (a * b)"

definition js_add :: "nat \<Rightarrow> js_number \<Rightarrow> js_number" where
  "js_add a b = (case b of Finite p \<Rightarrow> to_double (a + p) | Infinity \<Rightarrow> Infinity)"

definition js_less :: "nat \<Rightarrow> js_number \<Rightarrow> bool" where
  "js_less a b = (case b of Finite t \<Rightarrow> a < t | Infinity \<Rightarrow> True)"

subsection \<open>The focus preview of the onboarding form\<close>

text \<open>
  \<^verbatim>\<open>feed-app.tsx\<close>, lines 638 to 644: the three shares shown for the focus mode
  chosen in the onboarding form, each a nested conditional on
  \<^verbatim>\<open>onboardingFocusMode\<close>, whose type is \<^verbatim>\<open>"strict" | "balanced" | "discovery"\<close>.
  The decimal literals stand for the rationals they denote.
\<close>

datatype focus_mode = strict | balanced | discovery

definition core_share :: "focus_mode \<Rightarrow> real" where
  "core_share m = (if m = strict then 0.85 else if m = discovery then 0.55 else 0.7)"

definition adjacent_share :: "focus_mode \<Rightarrow> real" where
  "adjacent_share m = (if m = strict then 0.12 else if m = discovery then 0.25 else 0.2)"

definition frontier_share :: "focus_mode \<Rightarrow> real" where
  "frontier_share m = (if m = strict then 0.03 else if m = discovery then 0.2 else 0.1)"

text \<open>The percentages as rendered: \<^verbatim>\<open>Math.round(share * 100)\<close>.\<close>

definition focus_preview :: "focus_mode \<Rightarrow> int \<times> int \<times> int" where
  "focus_preview m =
     (round (core_share m * 100), round (adjacent_share m * 100), round (frontier_share m * 100))"

subsection \<open>The legacy client: cards and their interactions\<close>

text \<open>
  \<^verbatim>\<open>frontend/script.js\<close>. \<^verbatim>\<open>state.currentUserId\<close> starts as \<^verbatim>\<open>null\<close> and is set
  from the user selector; \<^verbatim>\<open>sendInteraction\<close> returns without a request when it is
  falsy (\<^verbatim>\<open>null\<close> or the empty string). A card keeps the time it was mounted at
  (\<^verbatim>\<open>inViewStartedAt\<close>) and the flag \<^verbatim>\<open>dataset.viewLogged\<close>.
\<close>

record interaction_request =
  user_id :: js_string
  article_id :: js_string
  action :: js_string
  dwell_seconds :: real

record legacy_state =
  currentUserId :: "js_string option"

record card =
  card_article_id :: js_string
  inViewStartedAt :: real
  viewLogged :: bool
  removed :: bool

definition legacy_sendInteraction ::
  "legacy_state \<Rightarrow> js_string \<Rightarrow> js_string \<Rightarrow> real \<Rightarrow> interaction_request list" where
  "legacy_sendInteraction st articleId act dwellSeconds =
     (case currentUserId st of
        None \<Rightarrow> []
      | Some u \<Rightarrow>
          if u = [] then []
          else [\<lparr>user_id = u, article_id = articleId, action = act,
                 dwell_seconds = dwellSeconds\<rparr>])"

text \<open>
  The click handler of a card's title link (lines 99 to 111), at the time \<open>now\<close> that
  \<^verbatim>\<open>performance.now()\<close> returns: the interaction requests it sends and the card
  afterwards. A view is logged once per card.
\<close>

definition link_click ::
  "legacy_state \<Rightarrow> card \<Rightarrow> real \<Rightarrow> interaction_request list \<times> card" where
  "link_click st c now =
     (if viewLogged c then ([], c)
      else
        let dwellSeconds = max 1 ((now - inViewStartedAt c) / 1000)
        in (legacy_sendInteraction st (card_article_id c) (lit ''view'') dwellSeconds,
            c\<lparr>viewLogged := True, removed := True\<rparr>))"

text \<open>
  The click handler of an action button of a card (lines 121 to 136); \<open>act\<close> is the
  button's \<^verbatim>\<open>data-action\<close>. \<open>ok\<close> says whether the awaited request succeeded: the card
  is removed only then.
\<close>

definition button_click ::
  "legacy_state \<Rightarrow> card \<Rightarrow> js_string \<Rightarrow> real \<Rightarrow> bool \<Rightarrow> interaction_request list \<times> card" where
  "button_click st c act now ok =
     (let dwellSeconds = max 1 ((now - inViewStartedAt c) / 1000)
      in (legacy_sendInteraction st (card_article_id c) act dwellSeconds,
          if ok then c\<lparr>removed := True\<rparr> else c))"

subsection \<open>The Next.js client: the types of \<^verbatim>\<open>lib/types.ts\<close>\<close>

text \<open>
  Field names are the source's; a prefix tells apart the fields that several types share
  (\<open>u_\<close> for \<^verbatim>\<open>User\<close>, \<open>f_\<close> for \<^verbatim>\<open>FeedResponse\<close>, \<open>x_\<close> for
  \<^verbatim>\<open>ExploreResponse\<close>, \<open>ob_\<close> for \<^verbatim>\<open>OnboardingResponse\<close>, \<open>ir_\<close> for the
  result of \<^verbatim>\<open>sendInteraction\<close>). An optional field is an \<^typ>\<open>'a option\<close>, absent
  or \<^verbatim>\<open>null\<close> being \<^const>\<open>None\<close>; a \<^verbatim>\<open>Record<string, T>\<close> is the list of its
  entries in the order of \<^verbatim>\<open>Object.entries\<close>.
\<close>

datatype tier = free | silver | gold

datatype interaction_action = view | like | save | share | skip

datatype bucket = core | adjacent | frontier

record user =
  u_id :: js_string
  u_name :: js_string
  u_tier :: tier
  u_role :: "js_string option"
  u_focus_mode :: "focus_mode option"
  u_referral_code :: "js_string option"
  u_referral_count :: "nat option"
  u_monthly_limit :: "nat option"
  u_monthly_used :: nat
  u_monthly_remaining :: "nat option"
  u_renewal_discount_percent :: "real option"

record feed_item =
  item_id :: js_string
  title :: js_string
  subject :: js_string
  summary :: js_string
  created_at :: js_string
  url :: js_string
  source :: js_string
  score :: real
  is_sponsored :: "bool option"

record entitlement =
  tier :: tier
  monthly_limit :: "nat option"
  monthly_used :: nat
  monthly_remaining :: "nat option"
  can_consume :: bool
  ad_enabled :: bool
  billing_window_start :: js_string
  referral_code :: "js_string option"
  referral_count :: "nat option"
  renewal_discount_percent :: "real option"

record feed_response =
  f_items :: "feed_item list"
  next_offset :: nat
  has_more :: bool
  subject_affinity :: "(js_string \<times> real) list"
  exploration_subject_scores :: "(js_string \<times> real) list option"
  bandit_subject_scores :: "(js_string \<times> real) list option"
  subject_pull_counts :: "(js_string \<times> nat) list"
  feed_focus_mode :: "focus_mode option"
  topic_buckets :: "(js_string \<times> bucket) list option"
  target_mix :: "(js_string \<times> real) list option"
  f_entitlement :: entitlement
  f_message :: "js_string option"


record onboarding_response =
  ob_ok :: bool
  ob_user :: user
  ob_entitlement :: entitlement
  ob_message :: js_string

record interaction_result =
  ir_ok :: bool
  ir_entitlement :: "entitlement option"

subsection \<open>The Next.js client: requests of \<^verbatim>\<open>lib/api.ts\<close>\<close>

text \<open>
  Each function of \<^verbatim>\<open>lib/api.ts\<close> sends one request; \<^verbatim>\<open>request\<close> throws
  \<^verbatim>\<open>new Error(`${res.status} ${detail}`)\<close> when the response is not ok. A request is
  a value of \<open>api_request\<close> with the fields of its body; the awaited answer is an
  input of the handler that awaits it, \<^const>\<open>Inl\<close> the message of the error thrown and
  \<^const>\<open>Inr\<close> the parsed body.
\<close>

datatype api_request =
    GetFeed js_string nat nat
  | ExploreCatalog js_string js_string js_string bool nat nat
  | SendInteraction js_string js_string interaction_action real
  | GetUsers
  | OnboardUser js_string js_string "js_string list" js_string js_string focus_mode
  | UpdateUserFocusMode js_string focus_mode

type_synonym 'a outcome = "js_string + 'a"

subsection \<open>The Next.js client: the state of \<^verbatim>\<open>FeedApp\<close>\<close>

text \<open>
  The state cells of \<^verbatim>\<open>FeedApp\<close> that the handlers below read or write, under the
  names of their \<^verbatim>\<open>useState\<close> declarations. The status line is a value of
  \<open>status_line\<close>: one constructor per message text, carrying what the template
  interpolates.
\<close>

datatype view_tab = feed_tab | explore_tab | onboarding_tab

datatype status_line =
    Booting
  | Curating
  | ServerMessage js_string
  | FeedReady
  | EndOfSession
  | RateLimitedFeed nat
  | FeedLoadFailed js_string
  | CatalogResults nat
  | NoResults
  | RateLimitedCatalog nat
  | CatalogSearchFailed js_string
  | Tracked interaction_action
  | LimitReached
  | InteractionFailed js_string
  | LoadingProfile js_string
  | NeedName
  | OnboardingFailed js_string
  | FocusSet focus_mode
  | ScenarioUpdated
  | FocusFailed js_string

record mounted_item =
  item :: feed_item
  mountedAt :: real

record app_state =
  status :: status_line
  users :: "user list"
  currentUser :: js_string
  activeTab :: view_tab
  items :: "mounted_item list"
  offset :: nat
  hasMore :: bool
  loading :: bool
  catalogItems :: "mounted_item list"
  catalogOffset :: nat
  catalogHasMore :: bool
  catalogTotal :: nat
  catalogLoading :: bool
  searchQuery :: js_string
  searchSubject :: js_string
  includeSeen :: bool
  subjects :: "js_string list"
  entitlement :: "entitlement option"
  affinity :: "(js_string \<times> real) list"
  explorationScores :: "(js_string \<times> real) list"
  pulls :: "(js_string \<times> nat) list"
  rateLimitedUntilMs :: js_number
  onboardingName :: js_string
  onboardingRole :: js_string
  onboardingGoal :: js_string
  onboardingReferralCode :: js_string
  onboardingInterests :: "js_string list"
  onboardingLoading :: bool
  focusLoading :: bool
  onboardingFocusMode :: focus_mode
  topicBuckets :: "(js_string \<times> bucket) list"
  targetMix :: "(js_string \<times> real) list"

definition FEED_PAGE_SIZE :: nat where
  "FEED_PAGE_SIZE = 18"


text \<open>
  \<^verbatim>\<open>xs.map((i) => ({ ...i, mountedAt: performance.now() }))\<close>; the clock is read once
  for the batch.
\<close>

definition withTimes :: "feed_item list \<Rightarrow> real \<Rightarrow> mounted_item list" where
  "withTimes xs perf = map (\<lambda>i. \<lparr>item = i, mountedAt = perf\<rparr>) xs"

subsection \<open>The Next.js client: the retry hint of a rate-limited request\<close>

text \<open>
  \<^verbatim>\<open>parseRetryAfterSeconds\<close> (lines 67 to 72) searches the error text with
  \<^verbatim>\<open>/"retry_after_seconds"\s*:\s*(\d+)/\<close>. \<open>match_here\<close> is the match of the
  pattern at the start of a string and gives the captured digits; the three classes
  \<^verbatim>\<open>\s\<close>, \<^verbatim>\<open>:\<close> and \<^verbatim>\<open>\d\<close> are disjoint, so the greedy match is the only one.
  \<open>regex_match\<close> is the leftmost match, as \<^verbatim>\<open>String.prototype.match\<close> finds it.
\<close>

definition retry_key :: js_string where
  \<open>retry_key = lit ''"retry_after_seconds"''\<close>

definition match_here :: "js_string \<Rightarrow> js_string option" where
  "match_here s =
     (if startsWith s retry_key then
        (case dropWhile is_space (drop (length retry_key) s) of
           [] \<Rightarrow> None
         | c # r \<Rightarrow>
             if c = 58 then
               (let ds = takeWhile is_digit (dropWhile is_space r)
                in if ds = [] then None else Some ds)
             else None)
      else None)"

fun regex_match :: "js_string \<Rightarrow> js_string option" where
  "regex_match [] = match_here []"
| "regex_match (c # cs) =
     (case match_here (c # cs) of Some ds \<Rightarrow> Some ds | None \<Rightarrow> regex_match cs)"

text \<open>
  The number a string of decimal digits denotes; \<^verbatim>\<open>Number(m[1])\<close> is the double
  nearest to it.
\<close>

definition digits_value :: "js_string \<Rightarrow> nat" where
  "digits_value ds = foldl (\<lambda>acc d. 10 * acc + (d - 48)) 0 ds"

definition parseRetryAfterSeconds :: "js_string \<Rightarrow> nat" where
  "parseRetryAfterSeconds rawError =
     (case regex_match rawError of
        None \<Rightarrow> 5
      | Some m1 \<Rightarrow>
          (case to_double (digits_value m1) of
             Finite v \<Rightarrow> if v > 0 then v else 5
           | Infinity \<Rightarrow> 5))"

subsection \<open>The Next.js client: loading the feed and the catalog\<close>

text \<open>
  \<^verbatim>\<open>hydrateFeed(reset, { silent })\<close> (lines 74 to 120), a closure over
  \<^verbatim>\<open>currentUser\<close>, \<^verbatim>\<open>hasMore\<close>, \<^verbatim>\<open>loading\<close>, \<^verbatim>\<open>offset\<close> and
  \<^verbatim>\<open>rateLimitedUntilMs\<close>. \<open>now\<close> is what \<^verbatim>\<open>Date.now()\<close> returns on entry,
  \<open>answer\<close> the outcome of the awaited \<^verbatim>\<open>getFeed\<close>, \<open>now_catch\<close> what
  \<^verbatim>\<open>Date.now()\<close> returns in the \<^verbatim>\<open>catch\<close> block and \<open>perf\<close> what
  \<^verbatim>\<open>performance.now()\<close> returns. The result is the list of requests sent and the live
  state afterwards.
\<close>

definition hydrateFeed ::
  "app_state \<Rightarrow> app_state \<Rightarrow> bool \<Rightarrow> bool \<Rightarrow> nat \<Rightarrow> feed_response outcome \<Rightarrow> nat \<Rightarrow>
     real \<Rightarrow> api_request list \<times> app_state" where
  "hydrateFeed cap st reset silent now answer now_catch perf =
     (if js_less now (rateLimitedUntilMs cap) then ([], st)
      else if currentUser cap = [] \<or> loading cap \<or> (\<not> hasMore cap \<and> \<not> reset)
      then ([], st)
      else
        let st1 = st\<lparr>loading := True\<rparr>;
            st2 = (if \<not> silent \<and> reset then st1\<lparr>status := Curating\<rparr> else st1);
            nextOffset = (if reset then 0 else offset cap)
        in ([GetFeed (currentUser cap) nextOffset FEED_PAGE_SIZE],
            case answer of
              Inr feed \<Rightarrow>
                st2\<lparr>items := (if reset then withTimes (f_items feed) perf
                                else items st2 @ withTimes (f_items feed) perf),
                    offset := next_offset feed,
                    hasMore := has_more feed,
                    affinity := subject_affinity feed,
                    explorationScores :=
                      (case exploration_subject_scores feed of
                         Some scores \<Rightarrow> scores
                       | None \<Rightarrow>
                           (case bandit_subject_scores feed of
                              Some scores \<Rightarrow> scores
                            | None \<Rightarrow> [])),
                    pulls := subject_pull_counts feed,
                    entitlement := Some (f_entitlement feed),
                    topicBuckets := (case topic_buckets feed of Some b \<Rightarrow> b | None \<Rightarrow> []),
                    targetMix := (case target_mix feed of Some t \<Rightarrow> t | None \<Rightarrow> []),
                    subjects := map fst (subject_affinity feed),
                    status :=
                      (if \<not> silent then
                         (case f_message feed of
                            Some m \<Rightarrow> ServerMessage m
                          | None \<Rightarrow> if has_more feed then FeedReady else EndOfSession)
                       else status st2),
                    loading := False\<rparr>
            | Inl message \<Rightarrow>
                if js_includes message (lit ''429'') then
                  let retryAfterSeconds = parseRetryAfterSeconds message
                  in st2\<lparr>rateLimitedUntilMs := js_add now_catch (js_mul retryAfterSeconds 1000),
                         status := RateLimitedFeed retryAfterSeconds,
                         loading := False\<rparr>
                else st2\<lparr>status := FeedLoadFailed message, loading := False\<rparr>))"



subsection \<open>The Next.js client: tracking an interaction\<close>

text \<open>
  \<^verbatim>\<open>track(articleId, action, dwellSeconds)\<close> (lines 168 to 212), a closure over
  \<^verbatim>\<open>currentUser\<close> and \<^verbatim>\<open>hydrateFeed\<close>. \<open>sent\<close> is the outcome of the awaited
  \<^verbatim>\<open>sendInteraction\<close>, \<open>head\<close> that of \<^verbatim>\<open>getFeed(currentUser, 0, 1)\<close>; the
  remaining inputs are those of the \<^verbatim>\<open>hydrateFeed(false, { silent: true })\<close> that
  refills the feed when fewer than 8 items are left. That \<^verbatim>\<open>hydrateFeed\<close> is the one
  of the render that made this \<^verbatim>\<open>track\<close>: it reads the same captured cells, however
  the live state has changed while \<^verbatim>\<open>track\<close> waited.
\<close>

definition track ::
  "app_state \<Rightarrow> app_state \<Rightarrow> js_string \<Rightarrow> interaction_action \<Rightarrow> real \<Rightarrow>
     interaction_result outcome \<Rightarrow> feed_response outcome \<Rightarrow> nat \<Rightarrow> feed_response outcome \<Rightarrow>
     nat \<Rightarrow> real \<Rightarrow> api_request list \<times> app_state" where
  "track cap st articleId act dwellSeconds sent head now refill now_catch perf =
     (if currentUser cap = [] then ([], st)
      else
        let send = SendInteraction (currentUser cap) articleId act dwellSeconds;
            failed = (\<lambda>s text.
              s\<lparr>status := (if js_includes text (lit ''402'') then LimitReached
                            else InteractionFailed text)\<rparr>)
        in case sent of
             Inl text \<Rightarrow> ([send], failed st text)
           | Inr interactionResult \<Rightarrow>
               let st1 = (case ir_entitlement interactionResult of
                            Some e \<Rightarrow> st\<lparr>entitlement := Some e\<rparr>
                          | None \<Rightarrow> st);
                   next = filter (\<lambda>x. item_id (item x) \<noteq> articleId) (items st1);
                   remainingAfterRemoval = length next;
                   st2 = st1\<lparr>items := next,
                             catalogItems :=
                               filter (\<lambda>x. item_id (item x) \<noteq> articleId) (catalogItems st1),
                             status := Tracked act\<rparr>;
                   get = GetFeed (currentUser cap) 0 1
               in (case head of
                    Inl text \<Rightarrow> ([send, get], failed st2 text)
                  | Inr h \<Rightarrow>
                      let st3 = st2\<lparr>affinity := subject_affinity h,
                                    explorationScores :=
                                      (case exploration_subject_scores h of
                                         Some scores \<Rightarrow> scores
                                       | None \<Rightarrow>
                                           (case bandit_subject_scores h of
                                              Some scores \<Rightarrow> scores
                                            | None \<Rightarrow> [])),
                                    pulls := subject_pull_counts h,
                                    topicBuckets :=
                                      (case topic_buckets h of Some b \<Rightarrow> b | None \<Rightarrow> []),
                                    targetMix :=
                                      (case target_mix h of Some t \<Rightarrow> t | None \<Rightarrow> []),
                                    entitlement := Some (f_entitlement h)\<rparr>
                      in if remainingAfterRemoval < 8 then
                           (let r = hydrateFeed cap st3 False True now refill now_catch perf
                            in ([send, get] @ fst r, snd r))
                         else ([send, get], st3)))"

subsection \<open>The Next.js client: onboarding and the focus mode\<close>

text \<open>
  \<^verbatim>\<open>submitOnboarding\<close> (lines 273 to 321), a closure over the cells of the
  onboarding form. \<open>onboarded\<close>, \<open>reloaded\<close> and \<open>head\<close> are the outcomes of the
  awaited \<^verbatim>\<open>onboardUser\<close>, \<^verbatim>\<open>getUsers\<close> and \<^verbatim>\<open>getFeed\<close>.
\<close>

definition submitOnboarding ::
  "app_state \<Rightarrow> app_state \<Rightarrow> onboarding_response outcome \<Rightarrow> user list outcome \<Rightarrow>
     feed_response outcome \<Rightarrow> real \<Rightarrow> api_request list \<times> app_state" where
  "submitOnboarding cap st onboarded reloaded head perf =
     (if trim (onboardingName cap) = [] then ([], st\<lparr>status := NeedName\<rparr>)
      else
        let st1 = st\<lparr>onboardingLoading := True\<rparr>;
            selectedInterests =
              (if onboardingInterests cap \<noteq> [] then onboardingInterests cap
               else [lit ''LLMs'']);
            onboard = OnboardUser (trim (onboardingName cap)) (trim (onboardingRole cap))
              selectedInterests (trim (onboardingGoal cap)) (trim (onboardingReferralCode cap))
              (onboardingFocusMode cap);
            failed = (\<lambda>s text. s\<lparr>status := OnboardingFailed text, onboardingLoading := False\<rparr>)
        in case onboarded of
             Inl text \<Rightarrow> ([onboard], failed st1 text)
           | Inr response \<Rightarrow>
               (case reloaded of
                  Inl text \<Rightarrow> ([onboard, GetUsers], failed st1 text)
                | Inr loadedUsers \<Rightarrow>
                    let st2 = st1\<lparr>users := loadedUsers,
                                  rateLimitedUntilMs := Finite 0,
                                  currentUser := u_id (ob_user response),
                                  activeTab := feed_tab,
                                  entitlement := Some (ob_entitlement response),
                                  items := [],
                                  offset := 0,
                                  hasMore := True,
                                  status := ServerMessage (ob_message response)\<rparr>;
                        get = GetFeed (u_id (ob_user response)) 0 FEED_PAGE_SIZE
                    in (case head of
                         Inl text \<Rightarrow> ([onboard, GetUsers, get], failed st2 text)
                       | Inr h \<Rightarrow>
                           ([onboard, GetUsers, get],
                            st2\<lparr>items := withTimes (f_items h) perf,
                                offset := next_offset h,
                                hasMore := has_more h,
                                affinity := subject_affinity h,
                                explorationScores :=
                                  (case exploration_subject_scores h of
                                     Some scores \<Rightarrow> scores
                                   | None \<Rightarrow>
                                       (case bandit_subject_scores h of
                                          Some scores \<Rightarrow> scores
                                        | None \<Rightarrow> [])),
                                pulls := subject_pull_counts h,
                                entitlement := Some (f_entitlement h),
                                topicBuckets :=
                                  (case topic_buckets h of Some b \<Rightarrow> b | None \<Rightarrow> []),
                                targetMix := (case target_mix h of Some t \<Rightarrow> t | None \<Rightarrow> []),
                                subjects := map fst (subject_affinity h),
                                onboardingName := [],
                                onboardingReferralCode := [],
                                onboardingInterests := [lit ''LLMs'', lit ''RAG''],
                                onboardingFocusMode := balanced,
                                users := loadedUsers,
                                onboardingLoading := False\<rparr>))))"

text \<open>
  \<^verbatim>\<open>currentFocusMode\<close> (lines 231 and 232) and \<^verbatim>\<open>handleFocusModeChange(mode)\<close>
  (lines 323 to 354), a closure over \<^verbatim>\<open>currentUser\<close> and \<^verbatim>\<open>currentFocusMode\<close>.
  \<open>updated\<close>, \<open>reloaded\<close> and \<open>nextFeed\<close> are the outcomes of the awaited
  \<^verbatim>\<open>updateUserFocusMode\<close>, \<^verbatim>\<open>getUsers\<close> and \<^verbatim>\<open>getFeed\<close>.
\<close>

definition currentFocusMode :: "app_state \<Rightarrow> focus_mode" where
  "currentFocusMode st =
     (case find (\<lambda>u. u_id u = currentUser st) (users st) of
        None \<Rightarrow> balanced
      | Some u \<Rightarrow> (case u_focus_mode u of None \<Rightarrow> balanced | Some m \<Rightarrow> m))"

definition handleFocusModeChange ::
  "app_state \<Rightarrow> app_state \<Rightarrow> focus_mode \<Rightarrow> unit outcome \<Rightarrow> user list outcome \<Rightarrow>
     feed_response outcome \<Rightarrow> real \<Rightarrow> api_request list \<times> app_state" where
  "handleFocusModeChange cap st mode updated reloaded nextFeed perf =
     (if currentUser cap = [] \<or> mode = currentFocusMode cap then ([], st)
      else
        let st1 = st\<lparr>focusLoading := True\<rparr>;
            update = UpdateUserFocusMode (currentUser cap) mode;
            failed = (\<lambda>s text. s\<lparr>status := FocusFailed text, focusLoading := False\<rparr>)
        in case updated of
             Inl text \<Rightarrow> ([update], failed st1 text)
           | Inr _ \<Rightarrow>
               (case reloaded of
                  Inl text \<Rightarrow> ([update, GetUsers], failed st1 text)
                | Inr loadedUsers \<Rightarrow>
                    let st2 = st1\<lparr>users := loadedUsers,
                                  status := FocusSet mode,
                                  rateLimitedUntilMs := Finite 0\<rparr>;
                        get = GetFeed (currentUser cap) 0 FEED_PAGE_SIZE
                    in (case nextFeed of
                         Inl text \<Rightarrow> ([update, GetUsers, get], failed st2 text)
                       | Inr f \<Rightarrow>
                           ([update, GetUsers, get],
                            st2\<lparr>items := withTimes (f_items f) perf,
                                offset := next_offset f,
                                hasMore := has_more f,
                                affinity := subject_affinity f,
                                explorationScores :=
                                  (case exploration_subject_scores f of
                                     Some scores \<Rightarrow> scores
                                   | None \<Rightarrow>
                                       (case bandit_subject_scores f of
                                          Some scores \<Rightarrow> scores
                                        | None \<Rightarrow> [])),
                                pulls := subject_pull_counts f,
                                topicBuckets :=
                                  (case topic_buckets f of Some b \<Rightarrow> b | None \<Rightarrow> []),
                                targetMix := (case target_mix f of Some t \<Rightarrow> t | None \<Rightarrow> []),
                                entitlement := Some (f_entitlement f),
                                subjects := map fst (subject_affinity f),
                                status := ScenarioUpdated,
                                focusLoading := False\<rparr>))))"

text \<open>
  The panel "Exploration Priorities" (lines 782 to 790): the entries of
  \<^verbatim>\<open>explorationScores\<close>, sorted by falling score with a stable sort, the first twelve,
  each shown with \<^verbatim>\<open>pct(value)\<close>, that is \<^verbatim>\<open>Math.round(value * 100)\<close> percent.
\<close>

definition exploration_chips :: "app_state \<Rightarrow> (js_string \<times> int) list" where
  "exploration_chips st =
     map (\<lambda>(subj, v). (subj, round (v * 100)))
       (take 12 (sort_key (\<lambda>(subj, v). - v) (explorationScores st)))"

section \<open>The feed engine, as specified\<close>

text \<open>
  The backend (\<^verbatim>\<open>backend/main.py\<close>) is not among the sources: only its runner scripts,
  its clients and its documents are. What the clients rely on is modelled here from the
  specification: the state store with its entitlement gate, the ranker's filter on the
  seen set, and the feed cache keyed on the state version. The event pipeline, the rate
  limiter and the injection of sponsored cards are left out.
\<close>

type_synonym user_id = js_string

type_synonym article_id = js_string

text \<open>
  Modelled from the spec: the Article of the data model (identity, subject, creation
  timestamp, sponsorship flag); the texts of an article are left out.
\<close>

record article =
  a_id :: article_id
  a_subject :: js_string
  a_created_at :: nat
  a_sponsored :: bool

text \<open>
  Modelled from the spec: the Interaction of the data model (user id, article id, action,
  dwell seconds, timestamp).
\<close>

record interaction =
  ia_user :: user_id
  ia_article :: article_id
  ia_action :: interaction_action
  ia_dwell :: real
  ia_ts :: nat

text \<open>Modelled from the spec: the taxonomy of errors of its section 7.\<close>

datatype engine_error =
    RateLimited nat
  | EntitlementExceeded tier
  | ValidationError
  | QueueOverflow
  | NotFound

text \<open>
  Modelled from the spec: the outcome of \<^verbatim>\<open>recordInteraction\<close>,
  \<^verbatim>\<open>ok | Rejected(EntitlementExceeded)\<close>.
\<close>

datatype write_result = Ok | Rejected engine_error

text \<open>
  Modelled from the spec: the state store (the tier of each user, the article pool, the
  append-only log of interactions, the seen set and the state version of each user, the
  start of the current billing window) and the feed cache (a CacheEntry per user, offset,
  page size and state version, holding a page and the time it expires at; a RankBundle
  per user and state version).
\<close>

record engine =
  tiers :: "user_id \<Rightarrow> tier"
  articles :: "article list"
  interactions :: "interaction list"
  seen :: "user_id \<Rightarrow> article_id set"
  version :: "user_id \<Rightarrow> nat"
  window_start :: nat
  page_cache :: "user_id \<times> nat \<times> nat \<times> nat \<Rightarrow> (article list \<times> nat) option"
  bundles :: "user_id \<times> nat \<Rightarrow> article list option"

text \<open>
  Modelled from the spec: the monthly limit of a tier, \<^verbatim>\<open>null\<close> for unlimited. The
  numbers are those of the repository's documents: free 5, silver 50, gold unlimited.
\<close>

definition tier_limit :: "tier \<Rightarrow> nat option" where
  "tier_limit t = (case t of free \<Rightarrow> Some 5 | silver \<Rightarrow> Some 50 | gold \<Rightarrow> None)"

text \<open>
  Modelled from the spec: \<^verbatim>\<open>monthly_used\<close> of the Entitlement, the number of the user's
  interactions within the current billing window.
\<close>

definition monthly_used_of :: "engine \<Rightarrow> user_id \<Rightarrow> nat" where
  "monthly_used_of e u =
     length (filter (\<lambda>i. ia_user i = u \<and> window_start e \<le> ia_ts i) (interactions e))"

text \<open>
  Modelled from the spec: the Entitlement derived for a user, in the shape of the
  \<^verbatim>\<open>Entitlement\<close> of \<^verbatim>\<open>lib/types.ts\<close>; \<open>label\<close> is the text of the billing window's
  start.
\<close>

definition entitlement_of :: "engine \<Rightarrow> js_string \<Rightarrow> user_id \<Rightarrow> entitlement" where
  "entitlement_of e label u =
     \<lparr>tier = tiers e u,
      monthly_limit = tier_limit (tiers e u),
      monthly_used = monthly_used_of e u,
      monthly_remaining = map_option (\<lambda>l. l - monthly_used_of e u) (tier_limit (tiers e u)),
      can_consume =
        (case tier_limit (tiers e u) of None \<Rightarrow> True | Some l \<Rightarrow> monthly_used_of e u < l),
      ad_enabled = (tiers e u = free),
      billing_window_start = label,
      referral_code = None,
      referral_count = None,
      renewal_discount_percent = None\<rparr>"

text \<open>
  Modelled from the spec: \<^verbatim>\<open>recordInteraction(user, article, action, dwell)\<close> behind the
  entitlement gate. The gate computes the used count of the current window and rejects
  when the tier's limit is finite and the count has reached it; otherwise the
  interaction is appended, the article marked seen and the state version bumped, as one
  step. The result is the outcome and the state afterwards.
\<close>

definition recordInteraction ::
  "engine \<Rightarrow> user_id \<Rightarrow> article_id \<Rightarrow> interaction_action \<Rightarrow> real \<Rightarrow> nat \<Rightarrow>
     write_result \<times> engine" where
  "recordInteraction e u a act dwell now =
     (let accepted =
            (Ok, e\<lparr>interactions := interactions e @
                      [\<lparr>ia_user = u, ia_article = a, ia_action = act, ia_dwell = dwell,
                        ia_ts = now\<rparr>],
                    seen := (seen e)(u := insert a (seen e u)),
                    version := (version e)(u := version e u + 1)\<rparr>)
      in case tier_limit (tiers e u) of
           None \<Rightarrow> accepted
         | Some l \<Rightarrow>
             if l \<le> monthly_used_of e u then (Rejected (EntitlementExceeded (tiers e u)), e)
             else accepted)"

text \<open>
  Modelled from the spec: what the ranker is given and the specification leaves open,
  the score of an article for a user in a state (affinity, exploration bonus, recency
  and jitter with their weights) and the reassembly of the scored list by topic mix and
  interleave cadence.
\<close>

record ranker =
  score_of :: "engine \<Rightarrow> user_id \<Rightarrow> article \<Rightarrow> real"
  arrange :: "user_id \<Rightarrow> article list \<Rightarrow> article list"

text \<open>
  Modelled from the spec: \<^verbatim>\<open>rank(user, candidates)\<close>. The candidates outside the user's
  seen set are scored, ordered by falling score and reassembled.
\<close>

definition rank :: "ranker \<Rightarrow> engine \<Rightarrow> user_id \<Rightarrow> article list \<Rightarrow> article list" where
  "rank rk e u candidates =
     arrange rk u
       (sort_key (\<lambda>a. - score_of rk e u a) (filter (\<lambda>a. a_id a \<notin> seen e u) candidates))"

text \<open>
  Modelled from the spec: \<^verbatim>\<open>getPage(user, offset, limit)\<close> of the feed cache at the time
  \<open>now\<close>. A live entry under the user's current state version is returned as it is. On
  a miss the rank bundle of the user's current version is looked up or built, the page
  is sliced from it, and both are stored, the page with the time to live \<open>ttl\<close>.
\<close>

definition getPage ::
  "ranker \<Rightarrow> nat \<Rightarrow> engine \<Rightarrow> user_id \<Rightarrow> nat \<Rightarrow> nat \<Rightarrow> nat \<Rightarrow> article list \<times> engine" where
  "getPage rk ttl e u off psize now =
     (let v = version e u;
          key = (u, off, psize, v);
          bundle = (case bundles e (u, v) of
                      Some b \<Rightarrow> b
                    | None \<Rightarrow> rank rk e u (articles e));
          page = take psize (drop off bundle);
          miss = (page, e\<lparr>page_cache := (page_cache e)(key \<mapsto> (page, now + ttl)),
                          bundles := (bundles e)((u, v) \<mapsto> bundle)\<rparr>)
      in case page_cache e key of
           None \<Rightarrow> miss
         | Some (cached, expires) \<Rightarrow> if now < expires then (cached, e) else miss)"

text \<open>
  Modelled from the spec: the explore endpoint, which pages through the articles that
  match the query and the subject filter, and leaves out the seen ones unless
  \<^verbatim>\<open>include_seen\<close> is set. What matching a query means is a parameter.
\<close>

definition explore ::
  "(js_string \<Rightarrow> article \<Rightarrow> bool) \<Rightarrow> engine \<Rightarrow> user_id \<Rightarrow> js_string \<Rightarrow> js_string \<Rightarrow> bool \<Rightarrow>
     nat \<Rightarrow> nat \<Rightarrow> article list" where
  "explore matches e u query subj include_seen off psize =
     take psize (drop off
       (filter (\<lambda>a. matches query a \<and> (subj = [] \<or> a_subject a = subj)
                  \<and> (include_seen \<or> a_id a \<notin> seen e u))
          (articles e)))"

text \<open>
  Modelled from the spec: the requests that change the engine's state, interaction
  writes and feed reads, and a run of them from a state.
\<close>

datatype engine_op =
    Interact user_id article_id interaction_action real nat
  | Feed user_id nat nat nat

fun apply_op :: "ranker \<Rightarrow> nat \<Rightarrow> engine \<Rightarrow> engine_op \<Rightarrow> engine" where
  "apply_op rk ttl e (Interact u a act dwell now) = snd (recordInteraction e u a act dwell now)"
| "apply_op rk ttl e (Feed u off psize now) = snd (getPage rk ttl e u off psize now)"

definition run_ops :: "ranker \<Rightarrow> nat \<Rightarrow> engine \<Rightarrow> engine_op list \<Rightarrow> engine" where
  "run_ops rk ttl e ops = foldl (apply_op rk ttl) e ops"

text \<open>
  Modelled from the spec: the invariant of the feed cache. No entry and no bundle is
  tagged with a version the user has not reached, and those tagged with the user's
  current version hold no article of the user's seen set.
\<close>

definition cache_fresh :: "engine \<Rightarrow> bool" where
  "cache_fresh e \<longleftrightarrow>
     (\<forall>u off psize v page expires.
        page_cache e (u, off, psize, v) = Some (page, expires) \<longrightarrow>
          v \<le> version e u \<and> (v = version e u \<longrightarrow> (\<forall>a\<in>set page. a_id a \<notin> seen e u)))
     \<and> (\<forall>u v bundle.
          bundles e (u, v) = Some bundle \<longrightarrow>
            v \<le> version e u \<and> (v = version e u \<longrightarrow> (\<forall>a\<in>set bundle. a_id a \<notin> seen e u)))"

text \<open>
  Modelled from the spec: the results of the interaction writes of a run, in order.
\<close>

fun results_of :: "ranker \<Rightarrow> nat \<Rightarrow> engine \<Rightarrow> engine_op list \<Rightarrow> write_result list" where
  "results_of rk ttl e [] = []"
| "results_of rk ttl e (Interact u a act dwell now # ops) =
     fst (recordInteraction e u a act dwell now)
       # results_of rk ttl (snd (recordInteraction e u a act dwell now)) ops"
| "results_of rk ttl e (Feed u off psize now # ops) =
     results_of rk ttl (snd (getPage rk ttl e u off psize now)) ops"

text \<open>
  Modelled from the spec: the reassembly of the ranker partitions the scored candidates
  and puts them together again, so it returns no article it was not given.
\<close>

definition rearranges :: "ranker \<Rightarrow> bool" where
  "rearranges rk \<longleftrightarrow> (\<forall>u xs. set (arrange rk u xs) \<subseteq> set xs)"

subsection \<open>The exploration scores of a feed response, as specified\<close>

text \<open>
  The rule the specification gives for the two fields of a feed response that carry the
  exploration scores: \<^verbatim>\<open>exploration_subject_scores\<close> is the canonical field,
  \<^verbatim>\<open>bandit_subject_scores\<close> its legacy alias. The canonical field wins when present,
  then the alias, then the empty map. It is compared below with what the handlers store.
\<close>

definition spec_exploration_scores :: "feed_response \<Rightarrow> (js_string \<times> real) list" where
  "spec_exploration_scores f =
     (if exploration_subject_scores f \<noteq> None then the (exploration_subject_scores f)
      else if bandit_subject_scores f \<noteq> None then the (bandit_subject_scores f)
      else [])"

subsection \<open>Example values\<close>

definition demo_card :: card where
  "demo_card = \<lparr>card_article_id = lit ''a13'', inViewStartedAt = 1000, viewLogged = False,
     removed = False\<rparr>"

definition demo_legacy :: legacy_state where
  "demo_legacy = \<lparr>currentUserId = Some (lit ''u1'')\<rparr>"

definition demo_view :: interaction_request where
  "demo_view = \<lparr>user_id = lit ''u1'', article_id = lit ''a13'', action = lit ''view'',
     dwell_seconds = 5 / 2\<rparr>"

definition demo_entitlement :: entitlement where
  "demo_entitlement = \<lparr>tier = free, monthly_limit = Some 5, monthly_used = 1,
     monthly_remaining = Some 4, can_consume = True, ad_enabled = True,
     billing_window_start = lit ''2026-01-01'', referral_code = None, referral_count = None,
     renewal_discount_percent = None\<rparr>"

definition demo_item :: "string \<Rightarrow> feed_item" where
  "demo_item a = \<lparr>item_id = lit a, title = lit ''t'', subject = lit ''AI'', summary = [],
     created_at = [], url = [], source = [], score = 1, is_sponsored = None\<rparr>"

definition demo_feed :: feed_response where
  "demo_feed = \<lparr>f_items = [demo_item ''a7''], next_offset = 1, has_more = True,
     subject_affinity = [(lit ''AI'', 1)],
     exploration_subject_scores = Some [(lit ''AI'', 0.9)],
     bandit_subject_scores = Some [(lit ''AI'', 0.1)],
     subject_pull_counts = [(lit ''AI'', 1)], feed_focus_mode = None, topic_buckets = None,
     target_mix = None, f_entitlement = demo_entitlement, f_message = None\<rparr>"

definition demo_state :: app_state where
  "demo_state = \<lparr>status = Booting, users = [], currentUser = lit ''u1'', activeTab = feed_tab,
     items = [\<lparr>item = demo_item ''a1'', mountedAt = 0\<rparr>, \<lparr>item = demo_item ''a2'', mountedAt = 0\<rparr>],
     offset = 2, hasMore = True, loading = False,
     catalogItems = [\<lparr>item = demo_item ''a1'', mountedAt = 0\<rparr>], catalogOffset = 0,
     catalogHasMore = False, catalogTotal = 0, catalogLoading = False, searchQuery = [],
     searchSubject = [], includeSeen = False, subjects = [], entitlement = None, affinity = [],
     explorationScores = [], pulls = [], rateLimitedUntilMs = Finite 0, onboardingName = lit ''Alex'',
     onboardingRole = lit ''AI Engineer'', onboardingGoal = [], onboardingReferralCode = [],
     onboardingInterests = [], onboardingLoading = False, focusLoading = False,
     onboardingFocusMode = balanced, topicBuckets = [], targetMix = []\<rparr>"

definition demo_user :: user where
  "demo_user = \<lparr>u_id = lit ''u9'', u_name = lit ''Alex'', u_tier = free, u_role = None,
     u_focus_mode = None, u_referral_code = None, u_referral_count = None,
     u_monthly_limit = Some 5, u_monthly_used = 0, u_monthly_remaining = Some 5,
     u_renewal_discount_percent = None\<rparr>"

definition demo_onboarded :: onboarding_response where
  "demo_onboarded = \<lparr>ob_ok = True, ob_user = demo_user, ob_entitlement = demo_entitlement,
     ob_message = lit ''Welcome''\<rparr>"



definition demo_article :: "string \<Rightarrow> string \<Rightarrow> article" where
  "demo_article a s = \<lparr>a_id = lit a, a_subject = lit s, a_created_at = 0, a_sponsored = False\<rparr>"

definition demo_engine :: engine where
  "demo_engine =
     \<lparr>tiers = (\<lambda>u. if u = lit ''u3'' then gold else if u = lit ''u2'' then silver else free),
      articles = [demo_article ''a1'' ''AI'', demo_article ''a2'' ''AI'',
        demo_article ''a3'' ''Science'', demo_article ''a4'' ''Design''],
      interactions = [], seen = (\<lambda>u. {}), version = (\<lambda>u. 0), window_start = 100,
      page_cache = (\<lambda>k. None), bundles = (\<lambda>k. None)\<rparr>"

definition demo_ranker :: ranker where
  "demo_ranker = \<lparr>score_of = (\<lambda>e u a. 0), arrange = (\<lambda>u xs. xs)\<rparr>"

definition demo_likes :: "engine_op list" where
  "demo_likes = [Interact (lit ''u1'') (lit ''a1'') like 30 101,
     Interact (lit ''u1'') (lit ''a2'') like 30 102,
     Interact (lit ''u1'') (lit ''a3'') like 30 103,
     Feed (lit ''u1'') 0 2 104,
     Interact (lit ''u1'') (lit ''a4'') like 30 105,
     Interact (lit ''u1'') (lit ''a5'') like 30 106]"





section \<open>Properties\<close>

subsection \<open>String literals\<close>

lemma lit_Nil_iff: "lit s = [] \<longleftrightarrow> s = []"
  by (simp add: lit_def)

lemma lit_eq_iff: "lit s = lit t \<longleftrightarrow> s = t"
  unfolding lit_def by (rule inj_map_eq_map) (simp add: inj_on_def)

subsection \<open>Focus modes\<close>

text \<open>
  C9. For each focus mode the shares over core, adjacent and frontier are the stated
  decimals, none is negative and they sum to 1; the core share falls strictly from
  strict over balanced to discovery, and the frontier share rises strictly from strict
  over balanced to discovery.
\<close>

theorem focus_shares_distribution:
  "core_share m + adjacent_share m + frontier_share m = 1
   \<and> 0 \<le> core_share m \<and> 0 \<le> adjacent_share m \<and> 0 \<le> frontier_share m
   \<and> (core_share strict, adjacent_share strict, frontier_share strict) = (0.85, 0.12, 0.03)
   \<and> (core_share balanced, adjacent_share balanced, frontier_share balanced) = (0.7, 0.2, 0.1)
   \<and> (core_share discovery, adjacent_share discovery, frontier_share discovery)
       = (0.55, 0.25, 0.2)
   \<and> core_share discovery < core_share balanced \<and> core_share balanced < core_share strict
   \<and> frontier_share strict < frontier_share balanced
   \<and> frontier_share balanced < frontier_share discovery"
  by (cases m) (simp_all add: core_share_def adjacent_share_def frontier_share_def)

lemma focus_preview_values:
  "focus_preview strict = (85, 12, 3)"
  "focus_preview balanced = (70, 20, 10)"
  "focus_preview discovery = (55, 25, 20)"
  by (simp_all add: focus_preview_def core_share_def adjacent_share_def frontier_share_def)

subsection \<open>Dwell of the legacy client\<close>

lemma legacy_sendInteraction_dwell:
  "r \<in> set (legacy_sendInteraction st a act d) \<Longrightarrow> dwell_seconds r = d"
  by (auto simp: legacy_sendInteraction_def split: option.splits if_splits)

text \<open>
  C10. Every interaction request the legacy client sends, from the click on a card's
  link or on one of its action buttons, carries a dwell of at least one second: the
  maximum of 1 and the elapsed milliseconds divided by 1000.
\<close>

theorem legacy_dwell_at_least_one:
  "r \<in> set (fst (link_click st c now)) \<union> set (fst (button_click st c act now ok)) \<Longrightarrow>
     dwell_seconds r = max 1 ((now - inViewStartedAt c) / 1000) \<and> 1 \<le> dwell_seconds r"
  by (auto simp: link_click_def button_click_def Let_def
      dest!: legacy_sendInteraction_dwell split: if_splits)

theorem legacy_dwell_at_least_one_witness:
  "demo_view \<in> set (fst (link_click demo_legacy demo_card 3500))
                 \<union> set (fst (button_click demo_legacy demo_card (lit ''like'') 3500 True))
   \<and> dwell_seconds demo_view = max 1 ((3500 - inViewStartedAt demo_card) / 1000)
   \<and> 1 \<le> dwell_seconds demo_view"
proof -
  have sent: "demo_view \<in> set (fst (link_click demo_legacy demo_card 3500))
      \<union> set (fst (button_click demo_legacy demo_card (lit ''like'') 3500 True))"
    by (simp add: demo_view_def demo_legacy_def demo_card_def link_click_def
        legacy_sendInteraction_def lit_def)
  from legacy_dwell_at_least_one [OF sent] sent show ?thesis
    by blast
qed

subsection \<open>Exploration scores: the canonical field and its alias\<close>

lemma spec_scores_case:
  "(case exploration_subject_scores f of Some scores \<Rightarrow> scores
    | None \<Rightarrow> (case bandit_subject_scores f of Some scores \<Rightarrow> scores | None \<Rightarrow> []))
   = spec_exploration_scores f"
  by (simp add: spec_exploration_scores_def split: option.splits)

lemma hydrateFeed_scores_result:
  "explorationScores (snd (hydrateFeed c s r sl now answer nc p))
     = (if fst (hydrateFeed c s r sl now answer nc p) = [] then explorationScores s
        else case answer of
               Inr f \<Rightarrow> spec_exploration_scores f
             | Inl text \<Rightarrow> explorationScores s)"
  by (auto simp: hydrateFeed_def Let_def spec_scores_case split: sum.splits)

lemma hydrateFeed_length:
  "length (fst (hydrateFeed c s r sl now answer nc p))
     = (if fst (hydrateFeed c s r sl now answer nc p) = [] then 0 else 1)"
  by (simp add: hydrateFeed_def Let_def)

lemma track_scores:
  "currentUser cap \<noteq> [] \<Longrightarrow>
   explorationScores (snd (track cap st a act d (Inr res) (Inr head) now refill now_catch perf))
     = (case refill of
          Inr feed2 \<Rightarrow>
            if length (fst (track cap st a act d (Inr res) (Inr head) now refill now_catch perf)) = 3
            then spec_exploration_scores feed2 else spec_exploration_scores head
        | Inl text \<Rightarrow> spec_exploration_scores head)"
  by (simp add: track_def Let_def spec_scores_case hydrateFeed_scores_result hydrateFeed_length
      split: sum.splits)

lemma onboarding_scores:
  "trim (onboardingName cap) \<noteq> [] \<Longrightarrow>
   explorationScores (snd (submitOnboarding cap st (Inr response) (Inr loaded) (Inr head) perf))
     = spec_exploration_scores head"
  by (simp add: submitOnboarding_def Let_def spec_scores_case)

lemma focus_scores:
  "currentUser cap \<noteq> [] \<Longrightarrow> mode \<noteq> currentFocusMode cap \<Longrightarrow>
   explorationScores
      (snd (handleFocusModeChange cap st mode (Inr u) (Inr loaded) (Inr nextFeed) perf))
     = spec_exploration_scores nextFeed"
  by (simp add: handleFocusModeChange_def Let_def spec_scores_case)

text \<open>
  C8. At each of the four places where the client reads a feed response
  (\<^verbatim>\<open>hydrateFeed\<close>, \<^verbatim>\<open>track\<close>, \<^verbatim>\<open>submitOnboarding\<close>, \<^verbatim>\<open>handleFocusModeChange\<close>), the
  exploration scores stored are the canonical field \<^verbatim>\<open>exploration_subject_scores\<close>
  when it is present, otherwise the alias \<^verbatim>\<open>bandit_subject_scores\<close> when present,
  otherwise the empty map; the panel shows the stored scores. \<^verbatim>\<open>track\<close> reads two
  responses when it refills the feed (its third request), and the later one is stored.
\<close>

theorem exploration_scores_precedence:
  "(fst (hydrateFeed cap st reset silent now (Inr feed) now_catch perf) \<noteq> [] \<longrightarrow>
      explorationScores (snd (hydrateFeed cap st reset silent now (Inr feed) now_catch perf))
        = spec_exploration_scores feed
      \<and> exploration_chips (snd (hydrateFeed cap st reset silent now (Inr feed) now_catch perf))
        = map (\<lambda>(subj, v). (subj, round (v * 100)))
            (take 12 (sort_key (\<lambda>(subj, v). - v) (spec_exploration_scores feed))))
   \<and> (currentUser cap \<noteq> [] \<longrightarrow>
      explorationScores (snd (track cap st a act d (Inr res) (Inr feed) now refill now_catch perf))
        = (case refill of
             Inr feed2 \<Rightarrow>
               if length (fst (track cap st a act d (Inr res) (Inr feed) now refill now_catch perf)) = 3
               then spec_exploration_scores feed2 else spec_exploration_scores feed
           | Inl text \<Rightarrow> spec_exploration_scores feed))
   \<and> (trim (onboardingName cap) \<noteq> [] \<longrightarrow>
      explorationScores (snd (submitOnboarding cap st (Inr response) (Inr loaded) (Inr feed) perf))
        = spec_exploration_scores feed)
   \<and> (currentUser cap \<noteq> [] \<and> mode \<noteq> currentFocusMode cap \<longrightarrow>
      explorationScores
         (snd (handleFocusModeChange cap st mode (Inr u) (Inr loaded) (Inr feed) perf))
        = spec_exploration_scores feed)"
  by (simp add: track_scores onboarding_scores focus_scores hydrateFeed_scores_result
      exploration_chips_def)

lemma trim_demo_name: "trim (onboardingName demo_state) \<noteq> []"
  by (simp add: demo_state_def trim_def lit_def is_space_def)

theorem exploration_scores_precedence_witness:
  "fst (hydrateFeed demo_state demo_state False True 10 (Inr demo_feed) 20 0) \<noteq> []
   \<and> currentUser demo_state \<noteq> []
   \<and> trim (onboardingName demo_state) \<noteq> []
   \<and> strict \<noteq> currentFocusMode demo_state
   \<and> exploration_subject_scores demo_feed = Some [(lit ''AI'', 0.9)]
   \<and> bandit_subject_scores demo_feed = Some [(lit ''AI'', 0.1)]
   \<and> explorationScores (snd (hydrateFeed demo_state demo_state False True 10 (Inr demo_feed) 20 0))
       = [(lit ''AI'', 0.9)]
   \<and> explorationScores
        (snd (track demo_state demo_state (lit ''a1'') like 3 (Inr \<lparr>ir_ok = True, ir_entitlement = None\<rparr>)
           (Inr demo_feed) 10 (Inl (lit ''500 failed'')) 20 0))
       = [(lit ''AI'', 0.9)]
   \<and> explorationScores
        (snd (submitOnboarding demo_state demo_state (Inr demo_onboarded) (Inr [demo_user]) (Inr demo_feed) 0))
       = [(lit ''AI'', 0.9)]
   \<and> explorationScores
        (snd (handleFocusModeChange demo_state demo_state strict (Inr ()) (Inr [demo_user]) (Inr demo_feed) 0))
       = [(lit ''AI'', 0.9)]"
proof -
  have issued: "fst (hydrateFeed demo_state demo_state False True 10 (Inr demo_feed) 20 0) \<noteq> []"
    by (simp add: hydrateFeed_def demo_state_def Let_def lit_def js_less_def)
  have user: "currentUser demo_state \<noteq> []"
    by (simp add: demo_state_def lit_def)
  have mode: "strict \<noteq> currentFocusMode demo_state"
    by (simp add: currentFocusMode_def demo_state_def)
  have fields: "exploration_subject_scores demo_feed = Some [(lit ''AI'', 0.9)]"
    "bandit_subject_scores demo_feed = Some [(lit ''AI'', 0.1)]"
    "spec_exploration_scores demo_feed = [(lit ''AI'', 0.9)]"
    by (simp_all add: demo_feed_def spec_exploration_scores_def)
  from exploration_scores_precedence [where cap = demo_state and st = demo_state
      and reset = False and silent = True and now = 10 and feed = demo_feed and now_catch = 20
      and perf = 0 and a = "lit ''a1''" and act = like and d = 3
      and res = "\<lparr>ir_ok = True, ir_entitlement = None\<rparr>" and refill = "Inl (lit ''500 failed'')"
      and response = demo_onboarded and loaded = "[demo_user]" and mode = strict and u = "()"]
    issued user mode trim_demo_name fields
  show ?thesis by simp
qed

subsection \<open>Rate-limited requests\<close>























subsection \<open>The entitlement gate\<close>

lemma recordInteraction_frame:
  "tiers (snd (recordInteraction e v a act d now)) = tiers e"
  "window_start (snd (recordInteraction e v a act d now)) = window_start e"
  by (simp_all add: recordInteraction_def Let_def split: option.splits)

lemma getPage_frame:
  "tiers (snd (getPage rk ttl e v off psize now)) = tiers e"
  "window_start (snd (getPage rk ttl e v off psize now)) = window_start e"
  "interactions (snd (getPage rk ttl e v off psize now)) = interactions e"
  "seen (snd (getPage rk ttl e v off psize now)) = seen e"
  "version (snd (getPage rk ttl e v off psize now)) = version e"
  by (simp_all add: getPage_def Let_def split: option.splits prod.splits)

lemma getPage_used:
  "monthly_used_of (snd (getPage rk ttl e v off psize now)) u = monthly_used_of e u"
  by (simp add: monthly_used_of_def getPage_frame)

lemma recordInteraction_rejected:
  "fst (recordInteraction e v a act d now) \<noteq> Ok \<Longrightarrow>
   recordInteraction e v a act d now = (Rejected (EntitlementExceeded (tiers e v)), e)"
  by (simp add: recordInteraction_def Let_def split: option.splits if_splits)

lemma recordInteraction_accepted:
  "fst (recordInteraction e v a act d now) = Ok \<Longrightarrow>
   snd (recordInteraction e v a act d now)
     = e\<lparr>interactions := interactions e @
            [\<lparr>ia_user = v, ia_article = a, ia_action = act, ia_dwell = d, ia_ts = now\<rparr>],
          seen := (seen e)(v := insert a (seen e v)),
          version := (version e)(v := version e v + 1)\<rparr>
   \<and> (\<forall>l. tier_limit (tiers e v) = Some l \<longrightarrow> monthly_used_of e v < l)"
  by (auto simp: recordInteraction_def Let_def split: option.splits if_splits)

lemma recordInteraction_used:
  "monthly_used_of (snd (recordInteraction e v a act d now)) u
     = (if fst (recordInteraction e v a act d now) = Ok \<and> v = u \<and> window_start e \<le> now
        then monthly_used_of e u + 1 else monthly_used_of e u)"
proof (cases "fst (recordInteraction e v a act d now) = Ok")
  case True
  from recordInteraction_accepted [OF this] show ?thesis
    using True by (simp add: monthly_used_of_def)
next
  case False
  from recordInteraction_rejected [OF this] show ?thesis
    using False by simp
qed

lemma recordInteraction_within:
  assumes "tier_limit (tiers e u) = Some l" and "monthly_used_of e u \<le> l"
  shows "monthly_used_of (snd (recordInteraction e v a act d now)) u \<le> l"
proof (cases "fst (recordInteraction e v a act d now) = Ok \<and> v = u")
  case True
  then have ok: "fst (recordInteraction e u a act d now) = Ok" and vu: "v = u"
    by auto
  from recordInteraction_accepted [OF ok] assms(1) have "monthly_used_of e u < l"
    by blast
  then show ?thesis by (simp add: recordInteraction_used vu)
next
  case False
  with assms(2) show ?thesis by (auto simp add: recordInteraction_used)
qed

lemma apply_op_tiers: "tiers (apply_op rk ttl e op) = tiers e"
  by (cases op) (simp_all add: recordInteraction_frame getPage_frame)

lemma apply_op_within:
  "tier_limit (tiers e u) = Some l \<Longrightarrow> monthly_used_of e u \<le> l \<Longrightarrow>
   monthly_used_of (apply_op rk ttl e op) u \<le> l"
  by (cases op) (simp_all add: recordInteraction_within getPage_used)

lemma run_ops_within:
  "tier_limit (tiers e u) = Some l \<Longrightarrow> monthly_used_of e u \<le> l \<Longrightarrow>
   monthly_used_of (run_ops rk ttl e ops) u \<le> l \<and> tiers (run_ops rk ttl e ops) = tiers e"
  unfolding run_ops_def
  by (induction ops arbitrary: e) (simp_all add: apply_op_within apply_op_tiers)

lemmas demo_engine_eval = run_ops_def demo_likes_def demo_engine_def recordInteraction_def
  getPage_def Let_def tier_limit_def monthly_used_of_def lit_eq_iff

lemma demo_likes_used:
  "monthly_used_of (run_ops demo_ranker 60 demo_engine demo_likes) (lit ''u1'') = 5"
  by (simp add: demo_engine_eval)

lemma demo_likes_tier:
  "tiers (run_ops demo_ranker 60 demo_engine demo_likes) (lit ''u1'') = free"
  by (simp add: demo_engine_eval)

text \<open>
  C1. For a user whose tier has a finite monthly limit, the used count stays within the
  limit over every run of interaction writes, accepted or rejected, and feed reads, from
  a state where it is within the limit (the empty log is one); and a write that is
  accepted never leaves the user's count above the limit.
\<close>

theorem monthly_used_within_limit:
  "(tier_limit (tiers e u) = Some l \<and> monthly_used_of e u \<le> l \<longrightarrow>
      monthly_used_of (run_ops rk ttl e ops) u \<le> l
      \<and> monthly_limit (entitlement_of (run_ops rk ttl e ops) label u) = Some l
      \<and> monthly_used (entitlement_of (run_ops rk ttl e ops) label u) \<le> l)
   \<and> (tier_limit (tiers e u) = Some l \<and> fst (recordInteraction e u a act d now) = Ok \<longrightarrow>
      monthly_used_of (snd (recordInteraction e u a act d now)) u \<le> l)"
proof (intro conjI impI)
  assume h: "tier_limit (tiers e u) = Some l \<and> monthly_used_of e u \<le> l"
  with run_ops_within [of e u l rk ttl ops]
  have "monthly_used_of (run_ops rk ttl e ops) u \<le> l"
    and "tiers (run_ops rk ttl e ops) = tiers e"
    by simp_all
  with h show "monthly_used_of (run_ops rk ttl e ops) u \<le> l"
    and "monthly_limit (entitlement_of (run_ops rk ttl e ops) label u) = Some l"
    and "monthly_used (entitlement_of (run_ops rk ttl e ops) label u) \<le> l"
    by (simp_all add: entitlement_of_def)
next
  assume h: "tier_limit (tiers e u) = Some l \<and> fst (recordInteraction e u a act d now) = Ok"
  with recordInteraction_accepted [of e u a act d now] have "monthly_used_of e u < l"
    by blast
  then show "monthly_used_of (snd (recordInteraction e u a act d now)) u \<le> l"
    by (simp add: recordInteraction_used)
qed

theorem monthly_used_within_limit_witness:
  "tier_limit (tiers demo_engine (lit ''u1'')) = Some 5
   \<and> monthly_used_of demo_engine (lit ''u1'') = 0
   \<and> monthly_used_of
        (run_ops demo_ranker 60 demo_engine
           (demo_likes @ [Interact (lit ''u1'') (lit ''a6'') view 1 107])) (lit ''u1'') = 5
   \<and> monthly_used_of
        (run_ops demo_ranker 60 demo_engine
           (demo_likes @ [Interact (lit ''u1'') (lit ''a6'') view 1 107])) (lit ''u1'') \<le> 5
   \<and> fst (recordInteraction demo_engine (lit ''u1'') (lit ''a1'') like 30 101) = Ok
   \<and> monthly_used_of
        (snd (recordInteraction demo_engine (lit ''u1'') (lit ''a1'') like 30 101)) (lit ''u1'')
       \<le> 5"
proof -
  have start: "tier_limit (tiers demo_engine (lit ''u1'')) = Some 5"
    "monthly_used_of demo_engine (lit ''u1'') = 0"
    "fst (recordInteraction demo_engine (lit ''u1'') (lit ''a1'') like 30 101) = Ok"
    by (simp_all add: demo_engine_eval)
  have six: "monthly_used_of
        (run_ops demo_ranker 60 demo_engine
           (demo_likes @ [Interact (lit ''u1'') (lit ''a6'') view 1 107])) (lit ''u1'') = 5"
    by (simp add: demo_engine_eval)
  from monthly_used_within_limit [of demo_engine "lit ''u1''" 5 demo_ranker 60
      "demo_likes @ [Interact (lit ''u1'') (lit ''a6'') view 1 107]" "[]" "lit ''a1''" like 30 101]
    start six
  show ?thesis by simp
qed

text \<open>
  C2. When the used count of a user with a finite limit has reached the limit, an
  interaction write is rejected with \<open>EntitlementExceeded\<close>, which is none of the other
  errors, and the state is the one before: the used count, the log, the seen set and the
  state version are unchanged.
\<close>

theorem entitlement_exceeded_rejects:
  "tier_limit (tiers e u) = Some l \<and> l \<le> monthly_used_of e u \<longrightarrow>
     recordInteraction e u a act d now = (Rejected (EntitlementExceeded (tiers e u)), e)
     \<and> EntitlementExceeded (tiers e u) \<noteq> ValidationError
     \<and> EntitlementExceeded (tiers e u) \<noteq> QueueOverflow
     \<and> EntitlementExceeded (tiers e u) \<noteq> NotFound
     \<and> (\<forall>n. EntitlementExceeded (tiers e u) \<noteq> RateLimited n)
     \<and> monthly_used_of (snd (recordInteraction e u a act d now)) u = monthly_used_of e u
     \<and> interactions (snd (recordInteraction e u a act d now)) = interactions e
     \<and> seen (snd (recordInteraction e u a act d now)) = seen e
     \<and> version (snd (recordInteraction e u a act d now)) = version e"
  by (simp add: recordInteraction_def Let_def)

theorem entitlement_exceeded_rejects_witness:
  "results_of demo_ranker 60 demo_engine demo_likes = [Ok, Ok, Ok, Ok, Ok]
   \<and> tier_limit (tiers (run_ops demo_ranker 60 demo_engine demo_likes) (lit ''u1'')) = Some 5
   \<and> 5 \<le> monthly_used_of (run_ops demo_ranker 60 demo_engine demo_likes) (lit ''u1'')
   \<and> recordInteraction (run_ops demo_ranker 60 demo_engine demo_likes)
          (lit ''u1'') (lit ''a6'') view 1 107
       = (Rejected (EntitlementExceeded free), run_ops demo_ranker 60 demo_engine demo_likes)"
proof -
  have five: "results_of demo_ranker 60 demo_engine demo_likes = [Ok, Ok, Ok, Ok, Ok]"
    by (simp add: demo_engine_eval)
  have full: "tier_limit (tiers (run_ops demo_ranker 60 demo_engine demo_likes) (lit ''u1''))
      = Some 5"
    by (simp add: demo_likes_tier tier_limit_def)
  from entitlement_exceeded_rejects [of "run_ops demo_ranker 60 demo_engine demo_likes"
      "lit ''u1''" 5 "lit ''a6''" view 1 107] five full demo_likes_used demo_likes_tier
  show ?thesis by simp
qed

subsection \<open>Seen articles and the feed\<close>

lemma rank_unseen:
  assumes "rearranges rk" and "x \<in> set (rank rk e u cs)"
  shows "a_id x \<notin> seen e u \<and> x \<in> set cs"
proof -
  from assms(1) have "set (rank rk e u cs)
      \<subseteq> set (sort_key (\<lambda>a. - score_of rk e u a) (filter (\<lambda>a. a_id a \<notin> seen e u) cs))"
    unfolding rank_def rearranges_def by blast
  with assms(2) show ?thesis by auto
qed

lemma getPage_page:
  "fst (getPage rk ttl e u off psize now)
     = (case page_cache e (u, off, psize, version e u) of
          Some (cached, expires) \<Rightarrow>
            if now < expires then cached
            else take psize (drop off (case bundles e (u, version e u) of
                   Some b \<Rightarrow> b | None \<Rightarrow> rank rk e u (articles e)))
        | None \<Rightarrow> take psize (drop off (case bundles e (u, version e u) of
                   Some b \<Rightarrow> b | None \<Rightarrow> rank rk e u (articles e))))"
  by (simp add: getPage_def Let_def split: option.splits prod.splits)

lemma bundle_unseen:
  assumes "rearranges rk" "cache_fresh e"
    and "x \<in> set (case bundles e (u, version e u) of
                   Some b \<Rightarrow> b | None \<Rightarrow> rank rk e u (articles e))"
  shows "a_id x \<notin> seen e u"
proof (cases "bundles e (u, version e u)")
  case None
  with assms(3) have "x \<in> set (rank rk e u (articles e))" by simp
  with assms(1) show ?thesis by (simp add: rank_unseen)
next
  case (Some b)
  with assms(3) have "x \<in> set b" by simp
  with assms(2) Some show ?thesis unfolding cache_fresh_def by blast
qed

text \<open>With a fresh cache, a page holds no article of the reader's seen set.\<close>

lemma getPage_unseen:
  assumes "rearranges rk" "cache_fresh e" "x \<in> set (fst (getPage rk ttl e u off psize now))"
  shows "a_id x \<notin> seen e u"
proof (cases "page_cache e (u, off, psize, version e u)")
  case None
  with assms(3) have "x \<in> set (case bundles e (u, version e u) of
                   Some b \<Rightarrow> b | None \<Rightarrow> rank rk e u (articles e))"
    by (auto simp: getPage_page dest: in_set_takeD in_set_dropD)
  with assms(1,2) show ?thesis by (rule bundle_unseen)
next
  case (Some entry)
  obtain cached expires where entry: "entry = (cached, expires)" by (cases entry)
  show ?thesis
  proof (cases "now < expires")
    case True
    with assms(3) Some entry have "x \<in> set cached" by (simp add: getPage_page)
    with assms(2) Some entry show ?thesis unfolding cache_fresh_def by blast
  next
    case False
    with assms(3) Some entry have "x \<in> set (case bundles e (u, version e u) of
                   Some b \<Rightarrow> b | None \<Rightarrow> rank rk e u (articles e))"
      by (auto simp: getPage_page dest: in_set_takeD in_set_dropD)
    with assms(1,2) show ?thesis by (rule bundle_unseen)
  qed
qed

lemma getPage_state:
  "snd (getPage rk ttl e u off psize now) = e
   \<or> snd (getPage rk ttl e u off psize now)
       = e\<lparr>page_cache := (page_cache e)((u, off, psize, version e u) \<mapsto>
              (take psize (drop off (case bundles e (u, version e u) of
                   Some b \<Rightarrow> b | None \<Rightarrow> rank rk e u (articles e))), now + ttl)),
            bundles := (bundles e)((u, version e u) \<mapsto>
              (case bundles e (u, version e u) of
                   Some b \<Rightarrow> b | None \<Rightarrow> rank rk e u (articles e)))\<rparr>"
  by (simp add: getPage_def Let_def split: option.splits prod.splits)

text \<open>Reads and writes keep the cache fresh.\<close>

lemma getPage_fresh:
  assumes "rearranges rk" "cache_fresh e"
  shows "cache_fresh (snd (getPage rk ttl e u off psize now))"
proof -
  let ?ranked = "case bundles e (u, version e u) of
                   Some b \<Rightarrow> b | None \<Rightarrow> rank rk e u (articles e)"
  have b: "\<forall>x\<in>set ?ranked. a_id x \<notin> seen e u"
    using bundle_unseen [OF assms] by blast
  then have p: "\<forall>x\<in>set (take psize (drop off ?ranked)). a_id x \<notin> seen e u"
    by (blast dest: in_set_takeD in_set_dropD)
  let ?e' = "e\<lparr>page_cache := (page_cache e)((u, off, psize, version e u) \<mapsto>
              (take psize (drop off ?ranked), now + ttl)),
            bundles := (bundles e)((u, version e u) \<mapsto> ?ranked)\<rparr>"
  have "cache_fresh ?e'"
    using assms(2) b p unfolding cache_fresh_def
    by (auto split: if_splits)
  with assms(2) getPage_state [of rk ttl e u off psize now] show ?thesis
    by auto
qed

lemma recordInteraction_fresh:
  assumes "cache_fresh e"
  shows "cache_fresh (snd (recordInteraction e u a act d now))"
proof (cases "fst (recordInteraction e u a act d now) = Ok")
  case True
  let ?e' = "e\<lparr>interactions := interactions e @
            [\<lparr>ia_user = u, ia_article = a, ia_action = act, ia_dwell = d, ia_ts = now\<rparr>],
          seen := (seen e)(u := insert a (seen e u)),
          version := (version e)(u := version e u + 1)\<rparr>"
  have "cache_fresh ?e'"
    unfolding cache_fresh_def
  proof (rule conjI; intro allI impI)
    fix w off psize v page expires
    assume "page_cache ?e' (w, off, psize, v) = Some (page, expires)"
    then have "page_cache e (w, off, psize, v) = Some (page, expires)" by simp
    with assms have "v \<le> version e w"
      and "v = version e w \<longrightarrow> (\<forall>x\<in>set page. a_id x \<notin> seen e w)"
      unfolding cache_fresh_def by blast+
    then show "v \<le> version ?e' w
        \<and> (v = version ?e' w \<longrightarrow> (\<forall>x\<in>set page. a_id x \<notin> seen ?e' w))"
      by (cases "w = u") simp_all
  next
    fix w v ranked
    assume "bundles ?e' (w, v) = Some ranked"
    then have "bundles e (w, v) = Some ranked" by simp
    with assms have "v \<le> version e w"
      and "v = version e w \<longrightarrow> (\<forall>x\<in>set ranked. a_id x \<notin> seen e w)"
      unfolding cache_fresh_def by blast+
    then show "v \<le> version ?e' w
        \<and> (v = version ?e' w \<longrightarrow> (\<forall>x\<in>set ranked. a_id x \<notin> seen ?e' w))"
      by (cases "w = u") simp_all
  qed
  with recordInteraction_accepted [OF True] show ?thesis by simp
next
  case False
  from recordInteraction_rejected [OF this] assms show ?thesis by simp
qed

lemma apply_op_fresh:
  "rearranges rk \<Longrightarrow> cache_fresh e \<Longrightarrow> cache_fresh (apply_op rk ttl e op)"
  by (cases op) (simp_all add: recordInteraction_fresh getPage_fresh)

lemma run_ops_fresh:
  "rearranges rk \<Longrightarrow> cache_fresh e \<Longrightarrow> cache_fresh (run_ops rk ttl e ops)"
  unfolding run_ops_def by (induction ops arbitrary: e) (simp_all add: apply_op_fresh)

text \<open>The seen set of a user only grows.\<close>

lemma recordInteraction_seen:
  "seen e w \<subseteq> seen (snd (recordInteraction e u a act d now)) w"
  by (auto simp: recordInteraction_def Let_def split: option.splits)

lemma apply_op_seen: "seen e w \<subseteq> seen (apply_op rk ttl e op) w"
  by (cases op) (simp_all add: recordInteraction_seen getPage_frame)

lemma run_ops_seen: "seen e w \<subseteq> seen (run_ops rk ttl e ops) w"
  unfolding run_ops_def
proof (induction ops arbitrary: e)
  case Nil
  show ?case by simp
next
  case (Cons op ops)
  from apply_op_seen [of e w rk ttl op] Cons.IH [of "apply_op rk ttl e op"]
  show ?case by simp
qed

lemma recordInteraction_marks:
  "fst (recordInteraction e u a act d now) = Ok \<Longrightarrow>
   a \<in> seen (snd (recordInteraction e u a act d now)) u"
  by (simp add: recordInteraction_accepted)

lemma explore_unseen:
  "x \<in> set (explore matches e u q subj False off psize) \<Longrightarrow> a_id x \<notin> seen e u"
  by (auto simp: explore_def dest!: in_set_takeD in_set_dropD)

text \<open>What \<^verbatim>\<open>track\<close> leaves of the article in the client's two lists.\<close>

lemma track_catalog:
  "currentUser cap \<noteq> [] \<Longrightarrow>
   x \<in> set (catalogItems (snd (track cap st a act d (Inr res) head now refill nc perf))) \<Longrightarrow>
   item_id (item x) \<noteq> a"
  by (auto simp: track_def Let_def hydrateFeed_def split: sum.splits option.splits if_splits)

lemma track_items:
  "currentUser cap \<noteq> [] \<Longrightarrow>
   x \<in> set (items (snd (track cap st a act d (Inr res) head now refill nc perf))) \<Longrightarrow>
   item_id (item x) = a \<Longrightarrow>
   \<exists>f. refill = Inr f \<and> a \<in> item_id ` set (f_items f)"
  by (auto simp: track_def Let_def hydrateFeed_def withTimes_def
      split: sum.splits option.splits if_splits)

lemma track_lists:
  "currentUser cap \<noteq> [] \<Longrightarrow>
   catalogItems (snd (track cap st a act d (Inr res) head now refill nc perf))
     = filter (\<lambda>x. item_id (item x) \<noteq> a) (catalogItems st)
   \<and> (items (snd (track cap st a act d (Inr res) head now refill nc perf))
         = filter (\<lambda>x. item_id (item x) \<noteq> a) (items st)
       \<or> (\<exists>f. refill = Inr f
             \<and> items (snd (track cap st a act d (Inr res) head now refill nc perf))
                 = filter (\<lambda>x. item_id (item x) \<noteq> a) (items st)
                   @ withTimes (f_items f) perf))"
  by (auto simp: track_def Let_def hydrateFeed_def split: sum.splits option.splits if_splits)

text \<open>
  C3. Once an interaction of user \<open>u\<close> on article \<open>a\<close> has been recorded, no page of
  the feed for \<open>u\<close> holds \<open>a\<close>, whatever writes and reads come in between, and neither
  does a page of explore without \<^verbatim>\<open>include_seen\<close>. In the client, after \<^verbatim>\<open>track\<close> has
  sent the interaction, the catalog list does not hold the article, and the feed list
  holds it only if the feed page that refilled the list did: the catalog list is the
  one before without the article, and the feed list is the one before without the
  article, followed by the page that refilled it if one did.
\<close>

theorem seen_article_leaves_feed:
  "(rearranges rk \<and> cache_fresh e \<and> fst (recordInteraction e u a act d now) = Ok \<longrightarrow>
      a \<notin> a_id ` set (fst (getPage rk ttl
             (run_ops rk ttl (snd (recordInteraction e u a act d now)) ops) u off psize t))
      \<and> a \<notin> a_id ` set (explore matches
             (run_ops rk ttl (snd (recordInteraction e u a act d now)) ops) u q subj False
             off psize))
   \<and> (currentUser cap \<noteq> [] \<longrightarrow>
      a \<notin> (\<lambda>x. item_id (item x)) `
            set (catalogItems (snd (track cap st a act d (Inr res) head now' refill nc perf)))
      \<and> (a \<in> (\<lambda>x. item_id (item x)) `
            set (items (snd (track cap st a act d (Inr res) head now' refill nc perf))) \<longrightarrow>
          (\<exists>f. refill = Inr f \<and> a \<in> item_id ` set (f_items f)))
      \<and> catalogItems (snd (track cap st a act d (Inr res) head now' refill nc perf))
          = filter (\<lambda>x. item_id (item x) \<noteq> a) (catalogItems st)
      \<and> (items (snd (track cap st a act d (Inr res) head now' refill nc perf))
            = filter (\<lambda>x. item_id (item x) \<noteq> a) (items st)
          \<or> (\<exists>f. refill = Inr f
                \<and> items (snd (track cap st a act d (Inr res) head now' refill nc perf))
                    = filter (\<lambda>x. item_id (item x) \<noteq> a) (items st)
                      @ withTimes (f_items f) perf)))"
proof (intro conjI impI)
  assume h: "rearranges rk \<and> cache_fresh e \<and> fst (recordInteraction e u a act d now) = Ok"
  let ?e = "run_ops rk ttl (snd (recordInteraction e u a act d now)) ops"
  from h have fresh: "cache_fresh ?e"
    by (simp add: recordInteraction_fresh run_ops_fresh)
  from h have "a \<in> seen (snd (recordInteraction e u a act d now)) u"
    by (simp add: recordInteraction_marks)
  with run_ops_seen [of "snd (recordInteraction e u a act d now)" u rk ttl ops]
  have marked: "a \<in> seen ?e u"
    by blast
  from h fresh marked show "a \<notin> a_id ` set (fst (getPage rk ttl ?e u off psize t))"
    by (blast dest: getPage_unseen)
  from marked show "a \<notin> a_id ` set (explore matches ?e u q subj False off psize)"
    by (blast dest: explore_unseen)
next
  assume "currentUser cap \<noteq> []"
  then show "a \<notin> (\<lambda>x. item_id (item x)) `
      set (catalogItems (snd (track cap st a act d (Inr res) head now' refill nc perf)))"
    by (blast dest: track_catalog)
next
  assume "currentUser cap \<noteq> []"
    and "a \<in> (\<lambda>x. item_id (item x)) `
      set (items (snd (track cap st a act d (Inr res) head now' refill nc perf)))"
  then show "\<exists>f. refill = Inr f \<and> a \<in> item_id ` set (f_items f)"
    by (blast dest: track_items)
next
  assume "currentUser cap \<noteq> []"
  then show "catalogItems (snd (track cap st a act d (Inr res) head now' refill nc perf))
      = filter (\<lambda>x. item_id (item x) \<noteq> a) (catalogItems st)"
    by (simp add: track_lists)
next
  assume "currentUser cap \<noteq> []"
  from track_lists [OF this, of st a act d res head now' refill nc perf]
  show "items (snd (track cap st a act d (Inr res) head now' refill nc perf))
        = filter (\<lambda>x. item_id (item x) \<noteq> a) (items st)
      \<or> (\<exists>f. refill = Inr f
            \<and> items (snd (track cap st a act d (Inr res) head now' refill nc perf))
                = filter (\<lambda>x. item_id (item x) \<noteq> a) (items st)
                  @ withTimes (f_items f) perf)"
    by blast
qed

theorem seen_article_leaves_feed_witness:
  "rearranges demo_ranker \<and> cache_fresh demo_engine
   \<and> fst (recordInteraction demo_engine (lit ''u1'') (lit ''a1'') like 30 101) = Ok
   \<and> map a_id (fst (getPage demo_ranker 60 demo_engine (lit ''u1'') 0 2 100))
       = [lit ''a1'', lit ''a2'']
   \<and> map a_id (fst (getPage demo_ranker 60
          (run_ops demo_ranker 60
             (snd (recordInteraction demo_engine (lit ''u1'') (lit ''a1'') like 30 101))
             [Feed (lit ''u1'') 0 2 104, Interact (lit ''u2'') (lit ''a2'') like 30 105])
          (lit ''u1'') 0 2 106))
       = [lit ''a2'', lit ''a3'']
   \<and> lit ''a1'' \<notin> a_id ` set (fst (getPage demo_ranker 60
          (run_ops demo_ranker 60
             (snd (recordInteraction demo_engine (lit ''u1'') (lit ''a1'') like 30 101))
             [Feed (lit ''u1'') 0 2 104, Interact (lit ''u2'') (lit ''a2'') like 30 105])
          (lit ''u1'') 0 2 106))
   \<and> lit ''a1'' \<notin> a_id ` set (explore (\<lambda>q x. True)
          (run_ops demo_ranker 60
             (snd (recordInteraction demo_engine (lit ''u1'') (lit ''a1'') like 30 101))
             [Feed (lit ''u1'') 0 2 104, Interact (lit ''u2'') (lit ''a2'') like 30 105])
          (lit ''u1'') [] [] False 0 2)
   \<and> lit ''a1'' \<in> a_id ` set (explore (\<lambda>q x. True)
          (run_ops demo_ranker 60
             (snd (recordInteraction demo_engine (lit ''u1'') (lit ''a1'') like 30 101))
             [Feed (lit ''u1'') 0 2 104, Interact (lit ''u2'') (lit ''a2'') like 30 105])
          (lit ''u1'') [] [] True 0 10)
   \<and> currentUser demo_state \<noteq> []
   \<and> lit ''a1'' \<in> (\<lambda>x. item_id (item x)) ` set (items demo_state)
   \<and> lit ''a1'' \<in> (\<lambda>x. item_id (item x)) ` set (catalogItems demo_state)
   \<and> lit ''a1'' \<notin> (\<lambda>x. item_id (item x)) `
        set (catalogItems (snd (track demo_state demo_state (lit ''a1'') like 30
          (Inr \<lparr>ir_ok = True, ir_entitlement = None\<rparr>) (Inr demo_feed) 10 (Inr demo_feed) 20 0)))
   \<and> lit ''a1'' \<notin> (\<lambda>x. item_id (item x)) `
        set (items (snd (track demo_state demo_state (lit ''a1'') like 30
          (Inr \<lparr>ir_ok = True, ir_entitlement = None\<rparr>) (Inr demo_feed) 10 (Inr demo_feed) 20 0)))"
proof -
  let ?e = "run_ops demo_ranker 60
      (snd (recordInteraction demo_engine (lit ''u1'') (lit ''a1'') like 30 101))
      [Feed (lit ''u1'') 0 2 104, Interact (lit ''u2'') (lit ''a2'') like 30 105]"
  have ranker: "rearranges demo_ranker"
    by (simp add: rearranges_def demo_ranker_def)
  have fresh: "cache_fresh demo_engine"
    by (simp add: cache_fresh_def demo_engine_def)
  have ok: "fst (recordInteraction demo_engine (lit ''u1'') (lit ''a1'') like 30 101) = Ok"
    by (simp add: demo_engine_eval)
  have before: "map a_id (fst (getPage demo_ranker 60 demo_engine (lit ''u1'') 0 2 100))
      = [lit ''a1'', lit ''a2'']"
    by (simp add: demo_engine_eval rank_def demo_ranker_def demo_article_def)
  have after: "map a_id (fst (getPage demo_ranker 60 ?e (lit ''u1'') 0 2 106))
      = [lit ''a2'', lit ''a3'']"
    by (simp add: demo_engine_eval rank_def demo_ranker_def demo_article_def)
  have again: "lit ''a1'' \<in> a_id ` set (explore (\<lambda>q x. True) ?e (lit ''u1'') [] [] True 0 10)"
    by (simp add: demo_engine_eval explore_def demo_article_def)
  have user: "currentUser demo_state \<noteq> []"
    by (simp add: demo_state_def lit_Nil_iff)
  have shown: "lit ''a1'' \<in> (\<lambda>x. item_id (item x)) ` set (items demo_state)"
    "lit ''a1'' \<in> (\<lambda>x. item_id (item x)) ` set (catalogItems demo_state)"
    by (simp_all add: demo_state_def demo_item_def)
  have refill: "\<not> (\<exists>f. (Inr demo_feed :: feed_response outcome) = Inr f
      \<and> lit ''a1'' \<in> item_id ` set (f_items f))"
    by (simp add: demo_feed_def demo_item_def lit_eq_iff)
  note claim = seen_article_leaves_feed [where rk = demo_ranker and e = demo_engine
      and u = "lit ''u1''" and a = "lit ''a1''" and act = like and d = 30 and now = 101
      and ttl = 60
      and ops = "[Feed (lit ''u1'') 0 2 104, Interact (lit ''u2'') (lit ''a2'') like 30 105]"
      and off = 0 and psize = 2 and t = 106 and matches = "\<lambda>q x. True" and q = "[]"
      and subj = "[]" and cap = demo_state and st = demo_state and res = "\<lparr>ir_ok = True, ir_entitlement = None\<rparr>"
      and head = "Inr demo_feed" and now' = 10 and refill = "Inr demo_feed" and nc = 20
      and perf = 0]
  from ranker fresh ok
  have recorded: "rearranges demo_ranker \<and> cache_fresh demo_engine
      \<and> fst (recordInteraction demo_engine (lit ''u1'') (lit ''a1'') like 30 101) = Ok"
    by (intro conjI)
  note engine = claim [THEN conjunct1, THEN mp, OF recorded]
  note client = claim [THEN conjunct2, THEN mp, OF user]
  from client [THEN conjunct2] refill
  have gone: "lit ''a1'' \<notin> (\<lambda>x. item_id (item x)) `
        set (items (snd (track demo_state demo_state (lit ''a1'') like 30
          (Inr \<lparr>ir_ok = True, ir_entitlement = None\<rparr>) (Inr demo_feed) 10 (Inr demo_feed) 20 0)))"
    by blast
  show ?thesis
    by (intro conjI ranker fresh ok before after engine [THEN conjunct1]
        engine [THEN conjunct2] again user shown client [THEN conjunct1] gone)
qed


end
